theory Spec2Isabelle
  imports
    Complex_Main
    "HOL-Library.Char_ord"
    "HOL-Library.List_Lexorder"
    "HOL-Library.Product_Lexorder"
begin

section \<open>Data model\<close>

text \<open>
  The dashboard of \<^verbatim>\<open>app.py\<close> reads three CSV files into module-level pandas data
  frames and never assigns to them again. A data frame is modelled as the list of its rows,
  in row order, and a row as a record of the columns the callbacks read. Both tables that
  the callbacks use carry a \<^verbatim>\<open>school_name\<close> column, which is the common root of the two
  row records. The column \<^verbatim>\<open>Net recurrent income\<close> is the field \<open>net_recurrent_income\<close> and
  the column \<^verbatim>\<open>$ per student\<close> is the field \<open>dollars_per_student\<close>.

  The float columns are idealised as real numbers: every cell holds a number (no missing
  value), and the mean of a group is the exact quotient of its sum by its size. The key
  columns hold a value in every row as well, so \<^verbatim>\<open>groupby\<close> drops no row.
\<close>

record school_row =
  school_name :: string

record naplan_result = school_row +
  domain :: string
  results_year :: int
  year_level :: string
  avg :: real

record recurrent_income = school_row +
  year :: int
  net_recurrent_income :: string
  dollars_per_student :: real

text \<open>
  The module-level data frames. \<^verbatim>\<open>enrolments_df\<close> is loaded by the program and read by
  no callback; it is left out of the store.
\<close>

record dataset_store =
  naplan_results_df :: "naplan_result list"
  recurrent_income_df :: "recurrent_income list"

text \<open>
  A value that a single-choice dropdown hands to its callback: nothing (a cleared
  dropdown), a string option such as \<^verbatim>\<open>"All"\<close>, or an integer option (a results year).
\<close>

datatype dropdown_value = NoneValue | StrValue string | IntValue int

datatype py_error = TypeError | KeyError

section \<open>The pandas operations the callbacks use\<close>

text \<open>
  \<^verbatim>\<open>Series.isin(values)\<close>: one boolean per cell. pandas raises \<^verbatim>\<open>TypeError\<close> when
  \<open>values\<close> is not list-like, which is the case for \<^verbatim>\<open>None\<close>.
\<close>

definition isin :: "'a list \<Rightarrow> 'a list option \<Rightarrow> py_error + bool list" where
  "isin column values =
     (case values of
        None \<Rightarrow> Inl TypeError
      | Some vs \<Rightarrow> Inr (map (\<lambda>cell. cell \<in> set vs) column))"

text \<open>\<^verbatim>\<open>len(x)\<close> raises \<^verbatim>\<open>TypeError\<close> on \<^verbatim>\<open>None\<close>.\<close>

definition len :: "'a list option \<Rightarrow> py_error + nat" where
  "len x = (case x of None \<Rightarrow> Inl TypeError | Some xs \<Rightarrow> Inr (length xs))"

text \<open>\<^verbatim>\<open>series == scalar\<close>: a cell equals the scalar when both have the same type and value.\<close>

definition series_eq :: "'v list \<Rightarrow> 'v \<Rightarrow> bool list" where
  "series_eq column scalar = map (\<lambda>cell. cell = scalar) column"

text \<open>\<^verbatim>\<open>mask1 & mask2\<close> on two boolean series over the same rows.\<close>

definition mask_and :: "bool list \<Rightarrow> bool list \<Rightarrow> bool list" where
  "mask_and m1 m2 = map (\<lambda>(a, b). a \<and> b) (zip m1 m2)"

text \<open>\<^verbatim>\<open>df[mask]\<close>: the rows whose mask cell is true, in their order.\<close>

definition getitem_mask :: "'r list \<Rightarrow> bool list \<Rightarrow> 'r list" where
  "getitem_mask df m = map fst (filter snd (zip df m))"

text \<open>
  \<^verbatim>\<open>Series.mean()\<close> of a group. A group is never empty: \<^verbatim>\<open>groupby\<close> makes a group only
  for a key that some row has.
\<close>

definition mean :: "real list \<Rightarrow> real" where
  "mean xs = sum_list xs / real (length xs)"

text \<open>
  \<^verbatim>\<open>df.groupby(keys)[column].mean()\<close>: one entry per distinct key of the frame, the keys in
  ascending order (\<^verbatim>\<open>sort=True\<close> is the default), each with the mean of the column over
  the rows that have the key.
\<close>

definition groupby_mean ::
  "('r \<Rightarrow> 'k::linorder) \<Rightarrow> ('r \<Rightarrow> real) \<Rightarrow> 'r list \<Rightarrow> ('k \<times> real) list" where
  "groupby_mean keys column df =
     map (\<lambda>k. (k, mean (map column (filter (\<lambda>r. keys r = k) df))))
       (sort (remdups (map keys df)))"

text \<open>
  \<^verbatim>\<open>reset_index()\<close> turns the levels of the group key into leading columns. For a key of
  one level the pair of key and mean already is the row of two columns.
\<close>

definition reset_index2 :: "(('a \<times> 'b) \<times> real) list \<Rightarrow> ('a \<times> 'b \<times> real) list" where
  "reset_index2 = map (\<lambda>((a, b), v). (a, b, v))"

definition reset_index3 ::
  "(('a \<times> 'b \<times> 'c) \<times> real) list \<Rightarrow> ('a \<times> 'b \<times> 'c \<times> real) list" where
  "reset_index3 = map (\<lambda>((a, b, c), v). (a, b, c, v))"

text \<open>\<^verbatim>\<open>str(x)\<close> inside an f-string, for a value that is a string or \<^verbatim>\<open>None\<close>.\<close>

definition str :: "string option \<Rightarrow> string" where
  "str x = (case x of None \<Rightarrow> ''None'' | Some s \<Rightarrow> s)"

section \<open>Figures\<close>

text \<open>
  The table handed to plotly. The two income charts and the per-domain branch of the
  historical chart pass source rows through; the grouped branches produce rows of the group
  keys followed by the mean of \<^verbatim>\<open>avg\<close>.
\<close>

datatype plot_df =
    IncomeRows "recurrent_income list"
  | NaplanRows "naplan_result list"
  | NaplanMeans "(string \<times> int \<times> string \<times> real) list"
  | SchoolMeans "(string \<times> real) list"
  | SchoolYearMeans "(string \<times> int \<times> real) list"

fun row_count :: "plot_df \<Rightarrow> nat" where
  "row_count (IncomeRows rs) = length rs"
| "row_count (NaplanRows rs) = length rs"
| "row_count (NaplanMeans rs) = length rs"
| "row_count (SchoolMeans rs) = length rs"
| "row_count (SchoolYearMeans rs) = length rs"

text \<open>
  The \<^verbatim>\<open>avg\<close> column of a table; the income rows have no such column.
\<close>

fun avg_column :: "plot_df \<Rightarrow> real list option" where
  "avg_column (IncomeRows rs) = None"
| "avg_column (NaplanRows rs) = Some (map avg rs)"
| "avg_column (NaplanMeans rs) = Some (map (\<lambda>(s, y, l, a). a) rs)"
| "avg_column (SchoolMeans rs) = Some (map (\<lambda>(s, a). a) rs)"
| "avg_column (SchoolYearMeans rs) = Some (map (\<lambda>(s, y, a). a) rs)"

text \<open>
  \<^verbatim>\<open>df.sort_values(ascending=True, by="avg")\<close>: the rows in ascending order of \<^verbatim>\<open>avg\<close>;
  \<^verbatim>\<open>KeyError\<close> when the frame has no such column. pandas does not promise an order
  among rows of equal \<^verbatim>\<open>avg\<close>; the model keeps them in their previous order.
\<close>

fun sort_values_avg :: "plot_df \<Rightarrow> py_error + plot_df" where
  "sort_values_avg (IncomeRows rs) = Inl KeyError"
| "sort_values_avg (NaplanRows rs) = Inr (NaplanRows (sort_key avg rs))"
| "sort_values_avg (NaplanMeans rs) = Inr (NaplanMeans (sort_key (\<lambda>(s, y, l, a). a) rs))"
| "sort_values_avg (SchoolMeans rs) = Inr (SchoolMeans (sort_key (\<lambda>(s, a). a) rs))"
| "sort_values_avg (SchoolYearMeans rs) = Inr (SchoolYearMeans (sort_key (\<lambda>(s, y, a). a) rs))"

datatype chart_kind = Area | Line | Bar

text \<open>
  A figure: the plotly express call (chart kind, table, axis and colour columns, facet
  column, title, height) and the layout the callback sets afterwards (height, plot
  background, title of the y axis). The colour map of the income categories, the grid lines,
  the markers, the facet spacing and the rewriting of the facet labels are presentation
  inside plotly and are not part of the record.
\<close>

record figure =
  chart :: chart_kind
  table :: plot_df
  x_column :: string
  y_column :: string
  color_column :: "string option"
  facet_column :: "string option"
  title :: "string option"
  height :: "int option"
  plot_bgcolor :: "string option"
  yaxis_title :: "string option"

section \<open>The income callbacks\<close>

definition update_income_distribution ::
  "dataset_store \<Rightarrow> string list option \<Rightarrow> py_error + figure" where
  "update_income_distribution store school_selection0 =
     (let school_selection = (if school_selection0 = None then Some [] else school_selection0);
          income_fields =
            [''Australian government recurrent funding'',
             ''State / territory government recurring funding'',
             ''Fees, charges and parent contributions'',
             ''Other private sources'']
      in case isin (map net_recurrent_income (recurrent_income_df store)) (Some income_fields) of
           Inl e \<Rightarrow> Inl e
         | Inr m1 \<Rightarrow>
        (case isin (map school_name (recurrent_income_df store)) school_selection of
           Inl e \<Rightarrow> Inl e
         | Inr m2 \<Rightarrow>
        (let plot_df = getitem_mask (recurrent_income_df store) (mask_and m1 m2)
         in case len school_selection of
              Inl e \<Rightarrow> Inl e
            | Inr n \<Rightarrow>
                Inr \<lparr>chart = Area, table = IncomeRows plot_df,
                     x_column = ''year'', y_column = ''$ per student'',
                     color_column = Some ''Net recurrent income'',
                     facet_column = Some ''school_name'',
                     title = None,
                     height = Some (max (300 * int n) 300),
                     plot_bgcolor = None, yaxis_title = None\<rparr>)))"

definition update_recurrent_income ::
  "dataset_store \<Rightarrow> string list option \<Rightarrow> py_error + figure" where
  "update_recurrent_income store school_selection0 =
     (let school_selection = (if school_selection0 = None then Some [] else school_selection0);
          income_fields = [''Total gross income'']
      in case isin (map net_recurrent_income (recurrent_income_df store)) (Some income_fields) of
           Inl e \<Rightarrow> Inl e
         | Inr m1 \<Rightarrow>
        (case isin (map school_name (recurrent_income_df store)) school_selection of
           Inl e \<Rightarrow> Inl e
         | Inr m2 \<Rightarrow>
        (let plot_df = getitem_mask (recurrent_income_df store) (mask_and m1 m2)
         in case len school_selection of
              Inl e \<Rightarrow> Inl e
            | Inr n \<Rightarrow>
                Inr \<lparr>chart = Line, table = IncomeRows plot_df,
                     x_column = ''year'', y_column = ''$ per student'',
                     color_column = Some ''school_name'',
                     facet_column = None,
                     title = None,
                     height = Some (max (300 * int n) 300),
                     plot_bgcolor = None, yaxis_title = None\<rparr>)))"

section \<open>The NAPLAN callbacks\<close>

definition update_naplan_results_per_year ::
  "dataset_store \<Rightarrow> string list option \<Rightarrow> string option \<Rightarrow> py_error + figure" where
  "update_naplan_results_per_year store school_selection0 result_domain =
     (let school_selection = (if school_selection0 = None then Some [] else school_selection0);
          background_colour = (if school_selection0 = None then ''white'' else ''#e5ecf6'');
          fig_title = str result_domain @ '' NAPLAN Results'';
          y_axis_title =
            (if result_domain = Some ''All'' then ''Average NAPLAN Score'' else ''NAPLAN Score'')
      in case
           (if result_domain = Some ''All''
            then
              (case isin (map school_name (naplan_results_df store)) school_selection of
                 Inl e \<Rightarrow> Inl e
               | Inr m \<Rightarrow>
                   Inr (NaplanMeans (reset_index3
                     (groupby_mean (\<lambda>r. (school_name r, results_year r, year_level r)) avg
                        (getitem_mask (naplan_results_df store) m)))))
            else
              (case isin (map school_name (naplan_results_df store)) school_selection of
                 Inl e \<Rightarrow> Inl e
               | Inr m1 \<Rightarrow>
                   Inr (NaplanRows (getitem_mask (naplan_results_df store)
                     (mask_and m1
                        (series_eq (map (\<lambda>r. Some (domain r)) (naplan_results_df store))
                           result_domain))))))
         of
           Inl e \<Rightarrow> Inl e
         | Inr plot_df \<Rightarrow>
             Inr \<lparr>chart = Line, table = plot_df,
                  x_column = ''results_year'', y_column = ''avg'',
                  color_column = Some ''school_name'',
                  facet_column = Some ''year_level'',
                  title = Some fig_title,
                  height = Some 700,
                  plot_bgcolor = Some background_colour,
                  yaxis_title = Some y_axis_title\<rparr>)"

text \<open>
  The year dropdown offers \<^verbatim>\<open>"All"\<close> and the integer years of the data; the comparison of
  the integer column with the chosen value holds for an integer of the same value only.
\<close>

definition update_top_ranked_schools ::
  "dataset_store \<Rightarrow> dropdown_value \<Rightarrow> py_error + figure" where
  "update_top_ranked_schools store results_year_input =
     (let plot_df0 =
            (if results_year_input = StrValue ''All''
             then SchoolMeans (groupby_mean school_name avg (naplan_results_df store))
             else SchoolYearMeans (reset_index2
                    (groupby_mean (\<lambda>r. (school_name r, results_year r)) avg
                       (getitem_mask (naplan_results_df store)
                          (series_eq (map (\<lambda>r. IntValue (results_year r)) (naplan_results_df store))
                             results_year_input)))))
      in case sort_values_avg plot_df0 of
           Inl e \<Rightarrow> Inl e
         | Inr plot_df \<Rightarrow>
             Inr \<lparr>chart = Bar, table = plot_df,
                  x_column = ''avg'', y_column = ''school_name'',
                  color_column = None,
                  facet_column = None,
                  title = Some ''Top Schools by Average NAPLAN Results'',
                  height = Some 700,
                  plot_bgcolor = None, yaxis_title = None\<rparr>)"

section \<open>Callback wiring\<close>

text \<open>
  The values of the six dropdowns of the layout, by component id, and the four graphs.
  Each \<^verbatim>\<open>@callback\<close> decorator names the graph a function draws and the dropdowns whose
  values it receives. A callback runs against the module-level data frames; the store
  after the call is returned next to the figure.
\<close>

record filter_state =
  result_domain_value :: "string option"
  school_selection_value :: "string list option"
  top_n_skill_selection_value :: "string option"
  results_year_value :: dropdown_value
  income_distribution_school_selection_value :: "string list option"
  recurrent_income_school_selection_value :: "string list option"

datatype graph_id =
  Income_distribution | Recurrent_income | Average_naplan_results | Top_schools

definition callback ::
  "graph_id \<Rightarrow> dataset_store \<Rightarrow> filter_state \<Rightarrow> (py_error + figure) \<times> dataset_store" where
  "callback graph store inputs =
     (case graph of
        Income_distribution \<Rightarrow>
          (update_income_distribution store (income_distribution_school_selection_value inputs),
           store)
      | Recurrent_income \<Rightarrow>
          (update_recurrent_income store (recurrent_income_school_selection_value inputs),
           store)
      | Average_naplan_results \<Rightarrow>
          (update_naplan_results_per_year store (school_selection_value inputs)
             (result_domain_value inputs),
           store)
      | Top_schools \<Rightarrow>
          (update_top_ranked_schools store (results_year_value inputs), store))"

section \<open>Notions of the specification\<close>

text \<open>The schools of a selection: none when nothing has been selected yet.\<close>

definition selected_schools :: "string list option \<Rightarrow> string list" where
  "selected_schools school_selection = (case school_selection of None \<Rightarrow> [] | Some xs \<Rightarrow> xs)"

section \<open>Example data\<close>

definition naplan_example :: "naplan_result list" where
  "naplan_example =
    [\<lparr>school_name = ''B'', domain = ''Reading'', results_year = 2020,
      year_level = ''Year 5'', avg = 70\<rparr>,
     \<lparr>school_name = ''A'', domain = ''Reading'', results_year = 2020,
      year_level = ''Year 5'', avg = 50\<rparr>,
     \<lparr>school_name = ''A'', domain = ''Writing'', results_year = 2020,
      year_level = ''Year 5'', avg = 55\<rparr>,
     \<lparr>school_name = ''C'', domain = ''Reading'', results_year = 2021,
      year_level = ''Year 3'', avg = 40\<rparr>]"

definition income_example :: "recurrent_income list" where
  "income_example =
    [\<lparr>school_name = ''A'', year = 2020, net_recurrent_income = ''Total gross income'',
      dollars_per_student = 1000\<rparr>,
     \<lparr>school_name = ''A'', year = 2020, net_recurrent_income = ''Other private sources'',
      dollars_per_student = 100\<rparr>,
     \<lparr>school_name = ''B'', year = 2020, net_recurrent_income = ''Other private sources'',
      dollars_per_student = 200\<rparr>]"

definition store_example :: dataset_store where
  "store_example = \<lparr>naplan_results_df = naplan_example, recurrent_income_df = income_example\<rparr>"

definition inputs_example :: filter_state where
  "inputs_example =
     \<lparr>result_domain_value = Some ''All'', school_selection_value = None,
      top_n_skill_selection_value = Some ''All'', results_year_value = StrValue ''All'',
      income_distribution_school_selection_value = None,
      recurrent_income_school_selection_value = None\<rparr>"

section \<open>Boolean indexing is filtering\<close>

lemma getitem_mask_map:
  "getitem_mask df (map p df) = filter p df"
  by (induction df) (simp_all add: getitem_mask_def)

lemma mask_and_map:
  "mask_and (map p df) (map q df) = map (\<lambda>r. p r \<and> q r) df"
  by (induction df) (simp_all add: mask_and_def)

lemma isin_Some:
  "isin (map f df) (Some vs) = Inr (map (\<lambda>r. f r \<in> set vs) df)"
  by (simp add: isin_def comp_def)

section \<open>The callbacks in closed form\<close>

lemma guard_selected:
  "(if sel = None then Some [] else sel) = Some (selected_schools sel)"
  by (cases sel) (simp_all add: selected_schools_def)

lemma len_Some: "len (Some xs) = Inr (length xs)"
  by (simp add: len_def)

lemma update_income_distribution_eq:
  "update_income_distribution store sel =
     Inr \<lparr>chart = Area,
          table = IncomeRows (filter
            (\<lambda>r. net_recurrent_income r \<in>
                   {''Australian government recurrent funding'',
                    ''State / territory government recurring funding'',
                    ''Fees, charges and parent contributions'',
                    ''Other private sources''} \<and>
                 school_name r \<in> set (selected_schools sel))
            (recurrent_income_df store)),
          x_column = ''year'', y_column = ''$ per student'',
          color_column = Some ''Net recurrent income'',
          facet_column = Some ''school_name'',
          title = None,
          height = Some (max (300 * int (length (selected_schools sel))) 300),
          plot_bgcolor = None, yaxis_title = None\<rparr>"
  unfolding update_income_distribution_def guard_selected Let_def
  by (simp add: isin_Some len_Some mask_and_map getitem_mask_map)

lemma update_recurrent_income_eq:
  "update_recurrent_income store sel =
     Inr \<lparr>chart = Line,
          table = IncomeRows (filter
            (\<lambda>r. net_recurrent_income r = ''Total gross income'' \<and>
                 school_name r \<in> set (selected_schools sel))
            (recurrent_income_df store)),
          x_column = ''year'', y_column = ''$ per student'',
          color_column = Some ''school_name'',
          facet_column = None,
          title = None,
          height = Some (max (300 * int (length (selected_schools sel))) 300),
          plot_bgcolor = None, yaxis_title = None\<rparr>"
  unfolding update_recurrent_income_def guard_selected Let_def
  by (simp add: isin_Some len_Some mask_and_map getitem_mask_map)

lemma series_eq_map: "series_eq (map f df) v = map (\<lambda>r. f r = v) df"
  by (simp add: series_eq_def comp_def)

lemma naplan_table_eq:
  "update_naplan_results_per_year store sel d =
     Inr \<lparr>chart = Line,
          table =
            (if d = Some ''All''
             then NaplanMeans (reset_index3
                    (groupby_mean (\<lambda>r. (school_name r, results_year r, year_level r)) avg
                       (filter (\<lambda>r. school_name r \<in> set (selected_schools sel))
                          (naplan_results_df store))))
             else NaplanRows (filter
                    (\<lambda>r. school_name r \<in> set (selected_schools sel) \<and> Some (domain r) = d)
                    (naplan_results_df store))),
          x_column = ''results_year'', y_column = ''avg'',
          color_column = Some ''school_name'',
          facet_column = Some ''year_level'',
          title = Some (str d @ '' NAPLAN Results''),
          height = Some 700,
          plot_bgcolor = Some (if sel = None then ''white'' else ''#e5ecf6''),
          yaxis_title =
            Some (if d = Some ''All'' then ''Average NAPLAN Score'' else ''NAPLAN Score'')\<rparr>"
  unfolding update_naplan_results_per_year_def guard_selected Let_def
  by (simp add: isin_Some series_eq_map mask_and_map getitem_mask_map)


lemma groupby_mean_keys:
  "map fst (groupby_mean keys column df) = sort (remdups (map keys df))"
  by (simp add: groupby_mean_def comp_def)


lemma groupby_mean_key_set: "fst ` set (groupby_mean keys column df) = keys ` set df"
proof -
  have "set (map fst (groupby_mean keys column df)) = keys ` set df"
    unfolding groupby_mean_keys by simp
  then show ?thesis by simp
qed


lemma groupby_mean_sorted: "sorted (map fst (groupby_mean keys column df))"
  by (simp add: groupby_mean_keys)

lemma groupby_mean_group_nonempty:
  assumes "(k, a) \<in> set (groupby_mean keys column df)"
  shows "filter (\<lambda>r. keys r = k) df \<noteq> []"
proof -
  from assms have "k \<in> fst ` set (groupby_mean keys column df)" by force
  then have "k \<in> keys ` set df" by (simp only: groupby_mean_key_set)
  then obtain r where "r \<in> set df" "keys r = k" by auto
  then show ?thesis by (auto simp add: filter_empty_conv)
qed


lemma sort_values_avg_sorted:
  assumes "sort_values_avg t = Inr t'"
  shows "\<exists>col. avg_column t' = Some col \<and> sorted col"
proof (cases t)
  case (IncomeRows rs)
  with assms show ?thesis by simp
next
  case (NaplanRows rs)
  with assms show ?thesis using sorted_sort_key [of avg rs] by auto
next
  case (NaplanMeans rs)
  with assms show ?thesis using sorted_sort_key [of "\<lambda>(s, y, l, a). a" rs] by auto
next
  case (SchoolMeans rs)
  with assms show ?thesis using sorted_sort_key [of "\<lambda>(s, a). a" rs] by auto
next
  case (SchoolYearMeans rs)
  with assms show ?thesis using sorted_sort_key [of "\<lambda>(s, y, a). a" rs] by auto
qed

lemma top_ranked_eq:
  "update_top_ranked_schools store y =
     Inr \<lparr>chart = Bar,
          table =
            (if y = StrValue ''All''
             then SchoolMeans (sort_key (\<lambda>(s, a). a)
                    (groupby_mean school_name avg (naplan_results_df store)))
             else SchoolYearMeans (sort_key (\<lambda>(s, y, a). a) (reset_index2
                    (groupby_mean (\<lambda>r. (school_name r, results_year r)) avg
                       (filter (\<lambda>r. IntValue (results_year r) = y)
                          (naplan_results_df store)))))),
          x_column = ''avg'', y_column = ''school_name'',
          color_column = None, facet_column = None,
          title = Some ''Top Schools by Average NAPLAN Results'',
          height = Some 700,
          plot_bgcolor = None, yaxis_title = None\<rparr>"
  unfolding update_top_ranked_schools_def Let_def
  by (simp add: series_eq_map getitem_mask_map)

lemma max_panels:
  "max (300 * int n) 300 = (if n = 0 then 300 else 300 * int n)"
  by (cases n) simp_all





section \<open>The claims\<close>

subsection \<open>Income distribution\<close>

text \<open>
  Claim C4. For every school selection the income distribution callback returns a figure, and
  every row of its table is a row of the income data frame whose \<^verbatim>\<open>Net recurrent income\<close>
  label is not \<^verbatim>\<open>Total gross income\<close>, is one of the four funding-source categories, and
  whose school is in the selection.
\<close>

theorem income_distribution_rows:
  "\<exists>fig rows.
     update_income_distribution store sel = Inr fig \<and>
     table fig = IncomeRows rows \<and>
     (\<forall>r \<in> set rows.
        net_recurrent_income r \<noteq> ''Total gross income'' \<and>
        net_recurrent_income r \<in>
          {''Australian government recurrent funding'',
           ''State / territory government recurring funding'',
           ''Fees, charges and parent contributions'',
           ''Other private sources''} \<and>
        school_name r \<in> set (selected_schools sel) \<and>
        r \<in> set (recurrent_income_df store))"
  by (auto simp add: update_income_distribution_eq)

theorem income_distribution_rows_witness:
  "\<exists>fig.
     update_income_distribution store_example (Some [''A'']) = Inr fig \<and>
     table fig =
       IncomeRows [\<lparr>school_name = ''A'', year = 2020,
                    net_recurrent_income = ''Other private sources'',
                    dollars_per_student = 100\<rparr>] \<and>
     ''Other private sources'' \<noteq> ''Total gross income'' \<and>
     ''A'' \<in> set (selected_schools (Some [''A'']))"
proof -
  obtain fig rows where
    run: "update_income_distribution store_example (Some [''A'']) = Inr fig" and
    tab: "table fig = IncomeRows rows" and
    all: "\<forall>r \<in> set rows.
            net_recurrent_income r \<noteq> ''Total gross income'' \<and>
            net_recurrent_income r \<in>
              {''Australian government recurrent funding'',
               ''State / territory government recurring funding'',
               ''Fees, charges and parent contributions'',
               ''Other private sources''} \<and>
            school_name r \<in> set (selected_schools (Some [''A''])) \<and>
            r \<in> set (recurrent_income_df store_example)"
    using income_distribution_rows [of store_example "Some [''A'']"] by blast
  have rows: "rows =
      [\<lparr>school_name = ''A'', year = 2020, net_recurrent_income = ''Other private sources'',
        dollars_per_student = 100\<rparr>]"
    using run tab
    by (auto simp add: update_income_distribution_eq store_example_def income_example_def
        selected_schools_def)
  from all rows have
    "''Other private sources'' \<noteq> ''Total gross income'' \<and>
     ''A'' \<in> set (selected_schools (Some [''A'']))"
    by simp
  with run tab rows show ?thesis by blast
qed

subsection \<open>Recurrent income trend\<close>

text \<open>
  Claim C5. For every school selection the recurrent income callback returns a figure whose
  table is exactly the rows of the income data frame, in their order, that are labelled
  \<^verbatim>\<open>Total gross income\<close> and whose school is in the selection; so every row of the table has
  both properties.
\<close>

theorem recurrent_income_rows:
  "\<exists>fig rows.
     update_recurrent_income store sel = Inr fig \<and>
     table fig = IncomeRows rows \<and>
     rows = filter
       (\<lambda>r. net_recurrent_income r = ''Total gross income'' \<and>
            school_name r \<in> set (selected_schools sel))
       (recurrent_income_df store) \<and>
     (\<forall>r \<in> set rows.
        net_recurrent_income r = ''Total gross income'' \<and>
        school_name r \<in> set (selected_schools sel))"
  by (auto simp add: update_recurrent_income_eq)

theorem recurrent_income_rows_witness:
  "\<exists>fig.
     update_recurrent_income store_example (Some [''A'', ''B'']) = Inr fig \<and>
     table fig =
       IncomeRows [\<lparr>school_name = ''A'', year = 2020,
                    net_recurrent_income = ''Total gross income'',
                    dollars_per_student = 1000\<rparr>] \<and>
     ''A'' \<in> set (selected_schools (Some [''A'', ''B'']))"
proof -
  obtain fig rows where
    run: "update_recurrent_income store_example (Some [''A'', ''B'']) = Inr fig" and
    tab: "table fig = IncomeRows rows" and
    rows: "rows = filter
       (\<lambda>r. net_recurrent_income r = ''Total gross income'' \<and>
            school_name r \<in> set (selected_schools (Some [''A'', ''B''])))
       (recurrent_income_df store_example)" and
    all: "\<forall>r \<in> set rows.
        net_recurrent_income r = ''Total gross income'' \<and>
        school_name r \<in> set (selected_schools (Some [''A'', ''B'']))"
    using recurrent_income_rows [of store_example "Some [''A'', ''B'']"] by blast
  have rows': "rows =
      [\<lparr>school_name = ''A'', year = 2020, net_recurrent_income = ''Total gross income'',
        dollars_per_student = 1000\<rparr>]"
    unfolding rows by (simp add: store_example_def income_example_def selected_schools_def)
  from all rows' have "''A'' \<in> set (selected_schools (Some [''A'', ''B'']))"
    by simp
  with run tab rows' show ?thesis by blast
qed

subsection \<open>Chart height\<close>

text \<open>
  Claim C8. For a school selection of \<open>n\<close> schools, the layout height of both income charts
  is \<open>max (300 * n) 300\<close>: it is \<open>300\<close> when nothing is selected and \<open>300 * n\<close> otherwise.
\<close>


theorem income_chart_height:
  "\<exists>fig1 fig2.
     update_income_distribution store sel = Inr fig1 \<and>
     update_recurrent_income store sel = Inr fig2 \<and>
     height fig1 = Some (max (300 * int (length (selected_schools sel))) 300) \<and>
     height fig2 = Some (max (300 * int (length (selected_schools sel))) 300) \<and>
     height fig1 =
       Some (if length (selected_schools sel) = 0 then 300
             else 300 * int (length (selected_schools sel))) \<and>
     height fig2 =
       Some (if length (selected_schools sel) = 0 then 300
             else 300 * int (length (selected_schools sel)))"
  by (simp add: update_income_distribution_eq update_recurrent_income_eq max_panels
      del: length_0_conv)

theorem income_chart_height_witness:
  "\<exists>fig1 fig2 fig3 fig4.
     update_income_distribution store_example (Some [''A'', ''B'']) = Inr fig1 \<and>
     update_recurrent_income store_example (Some [''A'', ''B'']) = Inr fig2 \<and>
     height fig1 = Some 600 \<and> height fig2 = Some 600 \<and>
     update_income_distribution store_example None = Inr fig3 \<and>
     update_recurrent_income store_example (Some []) = Inr fig4 \<and>
     height fig3 = Some 300 \<and> height fig4 = Some 300"
  using income_chart_height [of store_example "Some [''A'', ''B'']"]
    income_chart_height [of store_example None]
    income_chart_height [of store_example "Some []"]
  by (auto simp add: selected_schools_def)

subsection \<open>Historical performance, one domain\<close>

text \<open>
  Claim C2. When the chosen domain is not \<^verbatim>\<open>"All"\<close>, the table of the historical
  performance figure is exactly the rows of the NAPLAN data frame, in their order, whose
  school is in the selection and whose domain is the chosen one: no grouping, no averaging.
\<close>

theorem naplan_domain_rows:
  assumes "result_domain \<noteq> Some ''All''"
  shows "\<exists>fig.
     update_naplan_results_per_year store sel result_domain = Inr fig \<and>
     table fig = NaplanRows (filter
       (\<lambda>r. school_name r \<in> set (selected_schools sel) \<and> Some (domain r) = result_domain)
       (naplan_results_df store))"
  using assms by (simp add: naplan_table_eq)

theorem naplan_domain_rows_witness:
  "Some ''Reading'' \<noteq> Some ''All'' \<and>
   (\<exists>fig.
     update_naplan_results_per_year store_example (Some [''A'', ''B'']) (Some ''Reading'') =
       Inr fig \<and>
     table fig = NaplanRows
       [\<lparr>school_name = ''B'', domain = ''Reading'', results_year = 2020,
         year_level = ''Year 5'', avg = 70\<rparr>,
        \<lparr>school_name = ''A'', domain = ''Reading'', results_year = 2020,
         year_level = ''Year 5'', avg = 50\<rparr>])"
proof -
  have ne: "Some ''Reading'' \<noteq> Some ''All''" by simp
  from naplan_domain_rows [OF ne, of store_example "Some [''A'', ''B'']"]
  show ?thesis
    by (simp add: store_example_def naplan_example_def selected_schools_def)
qed

subsection \<open>Historical performance, all domains\<close>



subsection \<open>Top schools\<close>



subsection \<open>Empty selections\<close>

text \<open>
  Claim C6. With no school selected, be it \<^verbatim>\<open>None\<close> or the empty list, the historical
  performance callback (for every domain) and the two income callbacks raise no error and
  return a figure whose table has no row. The top-schools callback raises no error for any
  value of the year dropdown and any data, and what it returns does not change when the
  three school selections change.
\<close>

theorem empty_selection_no_rows:
  "(\<exists>fig. update_naplan_results_per_year store None result_domain = Inr fig \<and>
      row_count (table fig) = 0) \<and>
   (\<exists>fig. update_naplan_results_per_year store (Some []) result_domain = Inr fig \<and>
      row_count (table fig) = 0) \<and>
   (\<exists>fig. update_income_distribution store None = Inr fig \<and> row_count (table fig) = 0) \<and>
   (\<exists>fig. update_income_distribution store (Some []) = Inr fig \<and>
      row_count (table fig) = 0) \<and>
   (\<exists>fig. update_recurrent_income store None = Inr fig \<and> row_count (table fig) = 0) \<and>
   (\<exists>fig. update_recurrent_income store (Some []) = Inr fig \<and>
      row_count (table fig) = 0) \<and>
   (\<exists>fig. update_top_ranked_schools store results_year_input = Inr fig) \<and>
   callback Top_schools store
     (inputs\<lparr>school_selection_value := s1,
             income_distribution_school_selection_value := s2,
             recurrent_income_school_selection_value := s3\<rparr>) =
   callback Top_schools store inputs"
  by (simp add: naplan_table_eq update_income_distribution_eq update_recurrent_income_eq
      top_ranked_eq selected_schools_def groupby_mean_def reset_index3_def callback_def)

theorem empty_selection_no_rows_witness:
  "update_income_distribution store_example None =
     Inr \<lparr>chart = Area, table = IncomeRows [],
          x_column = ''year'', y_column = ''$ per student'',
          color_column = Some ''Net recurrent income'',
          facet_column = Some ''school_name'',
          title = None, height = Some 300, plot_bgcolor = None, yaxis_title = None\<rparr> \<and>
   (\<exists>fig. update_naplan_results_per_year store_example (Some []) (Some ''All'') = Inr fig \<and>
      table fig = NaplanMeans [])"
  using empty_selection_no_rows [of store_example "Some ''All''" "StrValue ''All''"]
  by (auto simp add: update_income_distribution_eq naplan_table_eq selected_schools_def
      groupby_mean_def reset_index3_def)

subsection \<open>Repeatability\<close>


subsection \<open>The skill dropdown of the top-schools tab\<close>

text \<open>
  Claim C10. The top-schools callback receives the value of the year dropdown only: for two
  states of the dropdowns with the same year value, whatever the skill dropdown and the
  other dropdowns hold, it returns the same result.
\<close>

theorem top_schools_reads_year_only:
  assumes "results_year_value inputs1 = results_year_value inputs2"
  shows "callback Top_schools store inputs1 = callback Top_schools store inputs2"
  using assms by (simp add: callback_def)

theorem top_schools_reads_year_only_witness:
  "results_year_value (inputs_example\<lparr>top_n_skill_selection_value := Some ''Reading''\<rparr>) =
     results_year_value (inputs_example\<lparr>top_n_skill_selection_value := Some ''All''\<rparr>) \<and>
   callback Top_schools store_example
     (inputs_example\<lparr>top_n_skill_selection_value := Some ''Reading''\<rparr>) =
   callback Top_schools store_example
     (inputs_example\<lparr>top_n_skill_selection_value := Some ''All''\<rparr>)"
proof -
  have same: "results_year_value
      (inputs_example\<lparr>top_n_skill_selection_value := Some ''Reading''\<rparr>) =
     results_year_value (inputs_example\<lparr>top_n_skill_selection_value := Some ''All''\<rparr>)"
    by simp
  from same top_schools_reads_year_only [OF same, of store_example] show ?thesis
    by blast
qed

subsection \<open>Background colour of the historical performance chart\<close>

text \<open>
  Claim C9, as stated, asks for a distinguished background colour for every empty school
  selection. The callback sets the colour \<^verbatim>\<open>white\<close> only when the selection is \<^verbatim>\<open>None\<close>;
  for the empty list the table is empty as well, but the background is \<^verbatim>\<open>#e5ecf6\<close>, the
  colour of a chart with schools selected. The first theorem evaluates the callback at the
  empty list and at a one-school selection.
\<close>

theorem naplan_empty_list_background_counterexample:
  "update_naplan_results_per_year store_example (Some []) (Some ''All'') =
     Inr \<lparr>chart = Line, table = NaplanMeans [],
          x_column = ''results_year'', y_column = ''avg'',
          color_column = Some ''school_name'', facet_column = Some ''year_level'',
          title = Some ''All NAPLAN Results'', height = Some 700,
          plot_bgcolor = Some ''#e5ecf6'',
          yaxis_title = Some ''Average NAPLAN Score''\<rparr> \<and>
   update_naplan_results_per_year store_example (Some [''C'']) (Some ''All'') =
     Inr \<lparr>chart = Line, table = NaplanMeans [(''C'', 2021, ''Year 3'', 40)],
          x_column = ''results_year'', y_column = ''avg'',
          color_column = Some ''school_name'', facet_column = Some ''year_level'',
          title = Some ''All NAPLAN Results'', height = Some 700,
          plot_bgcolor = Some ''#e5ecf6'',
          yaxis_title = Some ''Average NAPLAN Score''\<rparr>"
  by (simp add: naplan_table_eq selected_schools_def store_example_def naplan_example_def
      groupby_mean_def reset_index3_def mean_def str_def)

text \<open>
  Claim C9, amended. When the school selection is \<^verbatim>\<open>None\<close>, the table is empty and the
  background is \<^verbatim>\<open>white\<close>; when it is a list, the background is \<^verbatim>\<open>#e5ecf6\<close>, a different
  colour, and for the empty list the table is empty.
\<close>

theorem naplan_background:
  "(\<exists>fig. update_naplan_results_per_year store None result_domain = Inr fig \<and>
      row_count (table fig) = 0 \<and> plot_bgcolor fig = Some ''white'') \<and>
   (\<exists>fig. update_naplan_results_per_year store (Some []) result_domain = Inr fig \<and>
      row_count (table fig) = 0 \<and> plot_bgcolor fig = Some ''#e5ecf6'') \<and>
   (\<exists>fig. update_naplan_results_per_year store (Some schools) result_domain = Inr fig \<and>
      plot_bgcolor fig = Some ''#e5ecf6'') \<and>
   ''white'' \<noteq> ''#e5ecf6''"
  by (simp add: naplan_table_eq selected_schools_def groupby_mean_def reset_index3_def)

end
